theory Spec2Isabelle
  imports Complex_Main
begin

section \<open>JavaScript values used by the application\<close>

text \<open>
  Strings that the application receives are lists of 8-bit characters, each standing for
  one UTF-16 code unit below 256, so \<open>length\<close> is JavaScript's \<open>.length\<close> on such text.
  Upper-casing can leave this range, so a string that is computed with \<open>toUpperCase\<close> is
  a list of code units given as natural numbers.
  Numbers are modelled as reals: the functions below only store and move them, they never
  compute with them. \<open>parseFloat\<close> is the ECMAScript builtin; it is a parameter \<open>pf\<close> of
  every function that calls it, and nothing is assumed about it.
\<close>

datatype js_error = TypeError | SyntaxError

definition code_units :: "string \<Rightarrow> nat list" where
  "code_units s = map of_char s"

text \<open>
  \<open>String.prototype.toUpperCase\<close> on the code units below 256: the letters a to z and
  the Latin-1 letters U+00E0 to U+00FE (but not the division sign U+00F7) move down by
  32, the micro sign U+00B5 becomes U+039C, the sharp s U+00DF becomes the two letters
  SS, y with diaeresis U+00FF becomes U+0178, and every other code unit stays.
\<close>

definition toUpperCase_char :: "char \<Rightarrow> nat list" where
  "toUpperCase_char c =
     (let n = (of_char c :: nat) in
      if 97 \<le> n \<and> n \<le> 122 then [n - 32]
      else if n = 181 then [924]
      else if n = 223 then [83, 83]
      else if 224 \<le> n \<and> n \<le> 254 \<and> n \<noteq> 247 then [n - 32]
      else if n = 255 then [376]
      else [n])"

definition toUpperCase :: "string \<Rightarrow> nat list" where
  "toUpperCase s = concat (map toUpperCase_char s)"

text \<open>
  \<open>String.prototype.toLowerCase\<close> on the code units below 256: the letters A to Z and
  the Latin-1 letters U+00C0 to U+00DE (but not the multiplication sign U+00D7) move up
  by 32, and every other code unit stays.
\<close>

definition toLowerCase_char :: "char \<Rightarrow> char" where
  "toLowerCase_char c =
     (let n = (of_char c :: nat) in
      if (65 \<le> n \<and> n \<le> 90) \<or> (192 \<le> n \<and> n \<le> 222 \<and> n \<noteq> 215)
      then char_of (n + 32) else c)"

definition toLowerCase :: "string \<Rightarrow> string" where
  "toLowerCase s = map toLowerCase_char s"

text \<open>White space of \<open>String.prototype.trim\<close> among the code units below 256.\<close>

definition is_white_space :: "char \<Rightarrow> bool" where
  "is_white_space c = ((of_char c :: nat) \<in> {9, 10, 11, 12, 13, 32, 160})"

definition trim :: "string \<Rightarrow> string" where
  "trim s = rev (dropWhile is_white_space (rev (dropWhile is_white_space s)))"

text \<open>\<open>s.split(c)\<close> for a one-character separator: never empty, \<open>''''.split(',')\<close> is \<open>['''']\<close>.\<close>

fun split :: "char \<Rightarrow> string \<Rightarrow> string list" where
  "split c [] = [[]]"
| "split c (x # xs) =
     (if x = c then [] # split c xs
      else (case split c xs of [] \<Rightarrow> [[x]] | t # ts \<Rightarrow> (x # t) # ts))"

text \<open>\<open>parts.join(sep)\<close>.\<close>

fun join :: "string \<Rightarrow> string list \<Rightarrow> string" where
  "join sep [] = []"
| "join sep [x] = x"
| "join sep (x # y # ys) = x @ sep @ join sep (y # ys)"

text \<open>\<open>s.includes(t)\<close>: \<open>t\<close> occurs in \<open>s\<close> as a contiguous substring.\<close>

fun starts_with :: "string \<Rightarrow> string \<Rightarrow> bool" where
  "starts_with s [] = True"
| "starts_with [] (y # ys) = False"
| "starts_with (x # xs) (y # ys) = (x = y \<and> starts_with xs ys)"

fun includes_str :: "string \<Rightarrow> string \<Rightarrow> bool" where
  "includes_str [] t = (t = [])"
| "includes_str (x # xs) t = (starts_with (x # xs) t \<or> includes_str xs t)"

text \<open>
  \<open>a || d\<close> where \<open>a\<close> is a string or \<open>undefined\<close> and \<open>d\<close> is a string: \<open>undefined\<close> and
  the empty string are falsy. A chain \<open>a || b || c\<close> yields its first truthy operand,
  or the last operand when there is none.
\<close>

definition or_else :: "string option \<Rightarrow> string \<Rightarrow> string" where
  "or_else a d = (case a of None \<Rightarrow> d | Some s \<Rightarrow> if s \<noteq> [] then s else d)"

section \<open>GeocodeSearch: the Nominatim variant of the application\<close>

subsection \<open>Records of the place-search service and \<open>buildShortName\<close>\<close>

record address =
  city :: "string option"
  town :: "string option"
  village :: "string option"
  hamlet :: "string option"
  county :: "string option"
  state :: "string option"
  country_code :: "string option"

record nominatim_result =
  r_address :: "address option"
  r_display_name :: "string option"
  r_lat :: string
  r_lon :: string

text \<open>The object \<open>{}\<close> of \<open>result.address || {}\<close>: every field is \<open>undefined\<close>.\<close>

definition empty_address :: address where
  "empty_address = \<lparr> city = None, town = None, village = None, hamlet = None,
     county = None, state = None, country_code = None \<rparr>"

text \<open>
  \<open>buildShortName\<close>. Reading \<open>result.display_name.split\<close> throws a TypeError when
  \<open>display_name\<close> is missing; the first two branches never read it.
\<close>

definition buildShortName :: "nominatim_result \<Rightarrow> js_error + nat list" where
  "buildShortName result =
     (let addr = (case r_address result of None \<Rightarrow> empty_address | Some a \<Rightarrow> a);
          cityv = or_else (city addr) (or_else (town addr) (or_else (village addr)
                    (or_else (hamlet addr) (or_else (county addr) []))));
          statev = or_else (state addr) [];
          country = (case country_code addr of None \<Rightarrow> []
                     | Some cc \<Rightarrow> if cc \<noteq> [] then toUpperCase cc else [])
      in if cityv \<noteq> [] \<and> statev \<noteq> [] then Inr (code_units (cityv @ '', '' @ statev))
         else if cityv \<noteq> [] \<and> country \<noteq> [] then Inr (code_units (cityv @ '', '') @ country)
         else (case r_display_name result of
                 None \<Rightarrow> Inl TypeError
               | Some dn \<Rightarrow>
                   Inr (code_units (join '', '' (take 2 (map trim (split CHR '','' dn)))))))"

record suggestion =
  name :: "string option"
  lat :: real
  lon :: real
  shortName :: "nat list"

text \<open>The callback of \<open>data.map\<close> in \<open>geocodeCity\<close>.\<close>

definition to_suggestion :: "(string \<Rightarrow> real) \<Rightarrow> nominatim_result \<Rightarrow> js_error + suggestion" where
  "to_suggestion pf r =
     (case buildShortName r of
        Inl e \<Rightarrow> Inl e
      | Inr sn \<Rightarrow> Inr \<lparr> name = r_display_name r, lat = pf (r_lat r), lon = pf (r_lon r),
                         shortName = sn \<rparr>)"

text \<open>\<open>data.map(...)\<close>: the first callback that throws aborts the whole map.\<close>

fun map_suggestions :: "(string \<Rightarrow> real) \<Rightarrow> nominatim_result list \<Rightarrow> js_error + suggestion list" where
  "map_suggestions pf [] = Inr []"
| "map_suggestions pf (r # rs) =
     (case to_suggestion pf r of
        Inl e \<Rightarrow> Inl e
      | Inr s \<Rightarrow> (case map_suggestions pf rs of Inl e \<Rightarrow> Inl e | Inr ss \<Rightarrow> Inr (s # ss)))"

subsection \<open>One search field as a state machine\<close>

text \<open>
  The state of one search field (start or destination; each has its own setters and its
  own timer ref). \<open>timers\<close> are the timeouts the browser still holds for this field:
  identifier, due time in milliseconds, and the query captured by the callback's closure.
  \<open>inflight\<close> are the \<open>fetch\<close> calls whose response has not arrived; \<open>calls\<close> logs every
  network call issued, oldest first.
\<close>

record field =
  suggestions :: "suggestion list"
  searching :: bool
  timerRef :: "nat option"
  timers :: "(nat \<times> nat \<times> string) list"
  inflight :: "(nat \<times> string) list"
  calls :: "string list"
  clock :: nat
  nextTimer :: nat
  nextRequest :: nat

text \<open>Identifiers returned by \<open>setTimeout\<close> are positive integers.\<close>

definition init_field :: field where
  "init_field = \<lparr> suggestions = [], searching = False, timerRef = None, timers = [],
     inflight = [], calls = [], clock = 0, nextTimer = 1, nextRequest = 1 \<rparr>"

definition clearTimeout :: "nat \<Rightarrow> field \<Rightarrow> field" where
  "clearTimeout t s = s\<lparr> timers := filter (\<lambda>(i, due, q). i \<noteq> t) (timers s) \<rparr>"

text \<open>
  \<open>geocodeCity(query, setSuggestions, setSearching, timerRef)\<close> up to its return; the
  callback handed to \<open>setTimeout\<close> is \<open>timer_callback\<close> below.
\<close>

definition geocodeCity :: "string \<Rightarrow> field \<Rightarrow> field" where
  "geocodeCity query s =
     (if length query < 3 then s\<lparr> suggestions := [] \<rparr>
      else
        let s1 = (case timerRef s of
                    None \<Rightarrow> s
                  | Some t \<Rightarrow> if t \<noteq> 0 then clearTimeout t s else s);
            t' = nextTimer s1
        in s1\<lparr> timers := timers s1 @ [(t', clock s1 + 400, query)],
                timerRef := Some t',
                nextTimer := t' + 1 \<rparr>)"

text \<open>The timer callback up to \<open>await fetch(...)\<close>: the network call is issued here.\<close>

definition timer_callback :: "string \<Rightarrow> field \<Rightarrow> field" where
  "timer_callback query s =
     s\<lparr> searching := True,
        calls := calls s @ [query],
        inflight := inflight s @ [(nextRequest s, query)],
        nextRequest := nextRequest s + 1 \<rparr>"

text \<open>
  What comes back for one network call: \<open>fetch\<close> rejects, \<open>res.json()\<close> rejects, the JSON
  value is not an array (\<open>data.map\<close> is not a function), or it is an array of results.
\<close>

datatype response = FetchRejected | JsonRejected | NotAnArray | Results "nominatim_result list"

text \<open>
  The body of \<open>try\<close> once the awaits are over: it either throws or reaches
  \<open>setSuggestions(suggestions)\<close> with the mapped list. A rejected \<open>fetch\<close> and a
  non-array value are TypeErrors, a body that is not JSON is a SyntaxError.
\<close>

fun try_body :: "(string \<Rightarrow> real) \<Rightarrow> response \<Rightarrow> js_error + suggestion list" where
  "try_body pf FetchRejected = Inl TypeError"
| "try_body pf JsonRejected = Inl SyntaxError"
| "try_body pf NotAnArray = Inl TypeError"
| "try_body pf (Results data) = map_suggestions pf data"

text \<open>
  The rest of the timer callback: \<open>try\<close>, \<open>catch\<close>, \<open>finally\<close>. The result is \<open>Inl\<close>
  when an exception leaves the callback and \<open>Inr\<close> of the new state otherwise.
\<close>

definition on_response :: "(string \<Rightarrow> real) \<Rightarrow> response \<Rightarrow> field \<Rightarrow> js_error + field" where
  "on_response pf resp s =
     (case try_body pf resp of
        Inr sg \<Rightarrow> Inr (s\<lparr> suggestions := sg, searching := False \<rparr>)
      | Inl err \<Rightarrow> Inr (s\<lparr> suggestions := [], searching := False \<rparr>))"

text \<open>
  The response of request \<open>rid\<close> arrives. A response for a request that is not in flight
  does nothing; an exception that left the callback would leave the state as it is.
\<close>

definition deliver :: "(string \<Rightarrow> real) \<Rightarrow> nat \<Rightarrow> response \<Rightarrow> field \<Rightarrow> field" where
  "deliver pf rid resp s =
     (if rid \<in> fst ` set (inflight s)
      then (let s1 = s\<lparr> inflight := filter (\<lambda>(i, q). i \<noteq> rid) (inflight s) \<rparr>
            in case on_response pf resp s1 of Inr s2 \<Rightarrow> s2 | Inl err \<Rightarrow> s1)
      else s)"

text \<open>
  \<open>d\<close> milliseconds pass: every timer that is due fires, in the order the timers were
  set (all delays are 400, so this is the order of their due times).
\<close>

definition tick :: "nat \<Rightarrow> field \<Rightarrow> field" where
  "tick d s =
     (let now = clock s + d;
          due = filter (\<lambda>(i, t, q). t \<le> now) (timers s);
          rest = filter (\<lambda>(i, t, q). \<not> t \<le> now) (timers s)
      in foldl (\<lambda>s' (i, t, q). timer_callback q s') (s\<lparr> clock := now, timers := rest \<rparr>) due)"

datatype event = Keystroke string | Tick nat | Response nat response

fun step :: "(string \<Rightarrow> real) \<Rightarrow> field \<Rightarrow> event \<Rightarrow> field" where
  "step pf s (Keystroke q) = geocodeCity q s"
| "step pf s (Tick d) = tick d s"
| "step pf s (Response rid resp) = deliver pf rid resp s"

definition run :: "(string \<Rightarrow> real) \<Rightarrow> field \<Rightarrow> event list \<Rightarrow> field" where
  "run pf s evs = foldl (step pf) s evs"

subsection \<open>Notions used to state the properties of the search field\<close>

text \<open>
  The browser holds at most one pending timer for the field, it is the one \<open>timerRef\<close>
  names, and it is not due yet.
\<close>

definition timer_inv :: "field \<Rightarrow> bool" where
  "timer_inv s =
     (nextTimer s \<noteq> 0 \<and>
      (case timers s of
         [] \<Rightarrow> True
       | [(i, due, q)] \<Rightarrow> timerRef s = Some i \<and> i \<noteq> 0 \<and> clock s < due
       | _ \<Rightarrow> False))"

fun is_Keystroke :: "event \<Rightarrow> bool" where
  "is_Keystroke (Keystroke q) = True"
| "is_Keystroke e = False"

text \<open>Events without a keystroke, and the time that passes during a list of events.\<close>

definition quiet :: "event list \<Rightarrow> bool" where
  "quiet evs = list_all (\<lambda>e. \<not> is_Keystroke e) evs"

fun elapsed :: "event list \<Rightarrow> nat" where
  "elapsed [] = 0"
| "elapsed (Tick d # evs) = d + elapsed evs"
| "elapsed (e # evs) = elapsed evs"

text \<open>
  A burst: keystrokes, each followed by the events (time passing, responses arriving)
  that happen before the next keystroke.
\<close>

definition burst :: "(string \<times> event list) list \<Rightarrow> event list" where
  "burst segs = concat (map (\<lambda>(q, evs). Keystroke q # evs) segs)"

text \<open>A response that makes the body of \<open>try\<close> throw.\<close>

definition failed :: "(string \<Rightarrow> real) \<Rightarrow> response \<Rightarrow> bool" where
  "failed pf resp = (case try_body pf resp of Inl err \<Rightarrow> True | Inr sg \<Rightarrow> False)"


section \<open>GeocodeSearch: the offline variant of the application (src/src/App.jsx)\<close>

text \<open>
  This variant searches a table built into the application and performs no network
  access. Its suggestions are entries of the table.
\<close>

record city_entry =
  ce_name :: string
  ce_lat :: real
  ce_lon :: real

definition cityDatabase :: "city_entry list" where
  "cityDatabase =
    [\<lparr> ce_name = ''Austin, TX'', ce_lat = 30.27, ce_lon = -97.74 \<rparr>,
     \<lparr> ce_name = ''Denver, CO'', ce_lat = 39.74, ce_lon = -104.99 \<rparr>,
     \<lparr> ce_name = ''Moab, UT'', ce_lat = 38.57, ce_lon = -109.55 \<rparr>,
     \<lparr> ce_name = ''Big Bend National Park, TX'', ce_lat = 29.25, ce_lon = -103.25 \<rparr>,
     \<lparr> ce_name = ''Sedona, AZ'', ce_lat = 34.87, ce_lon = -111.76 \<rparr>,
     \<lparr> ce_name = ''Flagstaff, AZ'', ce_lat = 35.20, ce_lon = -111.65 \<rparr>,
     \<lparr> ce_name = ''Santa Fe, NM'', ce_lat = 35.69, ce_lon = -105.94 \<rparr>,
     \<lparr> ce_name = ''Albuquerque, NM'', ce_lat = 35.08, ce_lon = -106.65 \<rparr>,
     \<lparr> ce_name = ''Phoenix, AZ'', ce_lat = 33.45, ce_lon = -112.07 \<rparr>,
     \<lparr> ce_name = ''Tucson, AZ'', ce_lat = 32.22, ce_lon = -110.93 \<rparr>,
     \<lparr> ce_name = ''Las Vegas, NV'', ce_lat = 36.17, ce_lon = -115.14 \<rparr>,
     \<lparr> ce_name = ''Salt Lake City, UT'', ce_lat = 40.76, ce_lon = -111.89 \<rparr>,
     \<lparr> ce_name = ''Colorado Springs, CO'', ce_lat = 38.83, ce_lon = -104.82 \<rparr>,
     \<lparr> ce_name = ''Durango, CO'', ce_lat = 37.28, ce_lon = -107.88 \<rparr>,
     \<lparr> ce_name = ''Taos, NM'', ce_lat = 36.41, ce_lon = -105.57 \<rparr>,
     \<lparr> ce_name = ''Carlsbad, NM'', ce_lat = 32.42, ce_lon = -104.23 \<rparr>,
     \<lparr> ce_name = ''El Paso, TX'', ce_lat = 31.76, ce_lon = -106.49 \<rparr>,
     \<lparr> ce_name = ''Houston, TX'', ce_lat = 29.76, ce_lon = -95.37 \<rparr>,
     \<lparr> ce_name = ''Dallas, TX'', ce_lat = 32.78, ce_lon = -96.80 \<rparr>,
     \<lparr> ce_name = ''San Antonio, TX'', ce_lat = 29.42, ce_lon = -98.49 \<rparr>,
     \<lparr> ce_name = ''Fort Worth, TX'', ce_lat = 32.75, ce_lon = -97.33 \<rparr>,
     \<lparr> ce_name = ''Oklahoma City, OK'', ce_lat = 35.47, ce_lon = -97.52 \<rparr>,
     \<lparr> ce_name = ''Kansas City, MO'', ce_lat = 39.10, ce_lon = -94.58 \<rparr>,
     \<lparr> ce_name = ''Amarillo, TX'', ce_lat = 35.22, ce_lon = -101.83 \<rparr>,
     \<lparr> ce_name = ''Lubbock, TX'', ce_lat = 33.58, ce_lon = -101.85 \<rparr>,
     \<lparr> ce_name = ''Midland, TX'', ce_lat = 31.99, ce_lon = -102.08 \<rparr>,
     \<lparr> ce_name = ''Marfa, TX'', ce_lat = 30.31, ce_lon = -104.02 \<rparr>,
     \<lparr> ce_name = ''Terlingua, TX'', ce_lat = 29.32, ce_lon = -103.61 \<rparr>,
     \<lparr> ce_name = ''Joshua Tree, CA'', ce_lat = 34.13, ce_lon = -116.31 \<rparr>,
     \<lparr> ce_name = ''Death Valley, CA'', ce_lat = 36.51, ce_lon = -117.08 \<rparr>,
     \<lparr> ce_name = ''Grand Canyon, AZ'', ce_lat = 36.05, ce_lon = -112.14 \<rparr>,
     \<lparr> ce_name = ''Zion National Park, UT'', ce_lat = 37.30, ce_lon = -113.03 \<rparr>,
     \<lparr> ce_name = ''Bryce Canyon, UT'', ce_lat = 37.59, ce_lon = -112.19 \<rparr>,
     \<lparr> ce_name = ''Arches National Park, UT'', ce_lat = 38.73, ce_lon = -109.59 \<rparr>,
     \<lparr> ce_name = ''Canyonlands, UT'', ce_lat = 38.33, ce_lon = -109.88 \<rparr>,
     \<lparr> ce_name = ''Mesa Verde, CO'', ce_lat = 37.18, ce_lon = -108.49 \<rparr>,
     \<lparr> ce_name = ''Black Canyon, CO'', ce_lat = 38.58, ce_lon = -107.72 \<rparr>,
     \<lparr> ce_name = ''Great Sand Dunes, CO'', ce_lat = 37.73, ce_lon = -105.51 \<rparr>,
     \<lparr> ce_name = ''Rocky Mountain National Park, CO'', ce_lat = 40.34, ce_lon = -105.68 \<rparr>,
     \<lparr> ce_name = ''Yellowstone, WY'', ce_lat = 44.43, ce_lon = -110.59 \<rparr>,
     \<lparr> ce_name = ''Jackson Hole, WY'', ce_lat = 43.48, ce_lon = -110.76 \<rparr>]"

record offline_field =
  off_suggestions :: "city_entry list"
  off_searching :: bool

definition geocodeCity_offline :: "string \<Rightarrow> offline_field \<Rightarrow> offline_field" where
  "geocodeCity_offline query s =
     (if length query < 2 then s\<lparr> off_suggestions := [] \<rparr>
      else
        let s1 = s\<lparr> off_searching := True \<rparr>;
            matches = take 5 (filter
              (\<lambda>c. includes_str (toLowerCase (ce_name c)) (toLowerCase query)) cityDatabase)
        in s1\<lparr> off_suggestions := matches, off_searching := False \<rparr>)"

section \<open>TripMap\<close>

subsection \<open>Property lookup on an object literal\<close>

text \<open>
  \<open>obj[key]\<close> on an object literal finds the object's own properties first and then the
  members every object inherits from \<open>Object.prototype\<close>; only then is it \<open>undefined\<close>.
  The inherited members are functions, and \<open>__proto__\<close> is the prototype object itself:
  all of them are truthy.
\<close>

datatype 'a lookup = Value 'a | Prototype_member string | Undefined

definition object_prototype_names :: "string list" where
  "object_prototype_names =
    [''constructor'', ''__defineGetter__'', ''__defineSetter__'', ''hasOwnProperty'',
     ''__lookupGetter__'', ''__lookupSetter__'', ''isPrototypeOf'', ''propertyIsEnumerable'',
     ''toString'', ''valueOf'', ''__proto__'', ''toLocaleString'']"

definition get_property :: "(string \<times> 'a) list \<Rightarrow> string \<Rightarrow> 'a lookup" where
  "get_property obj key =
     (case map_of obj key of
        Some v \<Rightarrow> Value v
      | None \<Rightarrow> if key \<in> set object_prototype_names then Prototype_member key else Undefined)"

text \<open>
  The key of \<open>obj[k]\<close> when \<open>k\<close> is a string or missing: a missing value is \<open>undefined\<close>,
  which is converted to the string \<open>undefined\<close> (and \<open>null\<close> to \<open>null\<close>, with the same
  outcome in the tables below).
\<close>

definition property_key :: "string option \<Rightarrow> string" where
  "property_key k = (case k of None \<Rightarrow> ''undefined'' | Some s \<Rightarrow> s)"

text \<open>\<open>x || d\<close> for the result \<open>x\<close> of a lookup; \<open>truthy\<close> tells which own values are truthy.\<close>

definition or_default :: "('a \<Rightarrow> bool) \<Rightarrow> 'a lookup \<Rightarrow> 'a \<Rightarrow> 'a lookup" where
  "or_default truthy x d =
     (case x of
        Value v \<Rightarrow> if truthy v then Value v else Value d
      | Prototype_member m \<Rightarrow> Prototype_member m
      | Undefined \<Rightarrow> Value d)"

subsection \<open>Marker icons\<close>

record L_Icon =
  iconUrl :: string
  shadowUrl :: string
  iconSize :: "nat \<times> nat"
  iconAnchor :: "nat \<times> nat"
  popupAnchor :: "int \<times> int"
  shadowSize :: "nat \<times> nat"

definition createIcon :: "string \<Rightarrow> L_Icon" where
  "createIcon color =
     \<lparr> iconUrl = ''https://raw.githubusercontent.com/pointhi/leaflet-color-markers/master/img/marker-icon-2x-''
                  @ color @ ''.png'',
       shadowUrl = ''https://cdnjs.cloudflare.com/ajax/libs/leaflet/1.9.4/images/marker-shadow.png'',
       iconSize = (25, 41),
       iconAnchor = (12, 41),
       popupAnchor = (1, -34),
       shadowSize = (41, 41) \<rparr>"

definition icons :: "(string \<times> L_Icon) list" where
  "icons =
    [(''start'', createIcon ''green''),
     (''end'', createIcon ''red''),
     (''dispersed'', createIcon ''orange''),
     (''campground'', createIcon ''blue''),
     (''rv_park'', createIcon ''violet''),
     (''default'', createIcon ''grey'')]"

text \<open>\<open>getCampsiteIcon = (type) => icons[type] || icons.default\<close>; an icon object is truthy.\<close>

definition getCampsiteIcon :: "string option \<Rightarrow> L_Icon lookup" where
  "getCampsiteIcon type =
     or_default (\<lambda>v. True) (get_property icons (property_key type)) (createIcon ''grey'')"

subsection \<open>Trip plans, the bounds and the route line\<close>

text \<open>
  The fields of a campsite and of a trip plan that the functions below read. A missing
  \<open>type\<close>, \<open>cell_service\<close> or \<open>difficulty\<close> is \<open>None\<close>.
\<close>

record site =
  site_id :: string
  site_name :: string
  site_type :: "string option"
  site_lat :: real
  site_lon :: real
  cell_service :: "string option"
  difficulty :: "string option"

record segment =
  day :: nat
  suggested_campsite :: "site option"

record trip_plan =
  segments :: "segment list"
  nearby_campsites :: "site list option"
  route_geometry :: "(real \<times> real) list option"




text \<open>\<open>getRoutePositions\<close>: OSRM gives \<open>[lon, lat]\<close>, Leaflet needs \<open>[lat, lon]\<close>.\<close>

definition getRoutePositions ::
  "(string \<Rightarrow> real) \<Rightarrow> string \<Rightarrow> string \<Rightarrow> string \<Rightarrow> string \<Rightarrow> trip_plan option \<Rightarrow> (real \<times> real) list" where
  "getRoutePositions pf startLat startLon destLat destLon tp =
     (let fallback = [(pf startLat, pf startLon), (pf destLat, pf destLon)]
      in case tp of
           None \<Rightarrow> fallback
         | Some p \<Rightarrow> (case route_geometry p of
                        None \<Rightarrow> fallback
                      | Some g \<Rightarrow> if length g > 0 then map (\<lambda>coord. (snd coord, fst coord)) g
                                  else fallback))"

section \<open>App: colours, selection and trip planning\<close>

definition cell_service_colors :: "(string \<times> string) list" where
  "cell_service_colors =
    [(''excellent'', ''#22c55e''), (''good'', ''#84cc16''), (''weak'', ''#eab308''),
     (''none'', ''#ef4444'')]"

definition getCellServiceColor :: "string option \<Rightarrow> string lookup" where
  "getCellServiceColor service =
     or_default (\<lambda>v. v \<noteq> []) (get_property cell_service_colors (property_key service)) ''#6b7280''"

definition difficulty_colors :: "(string \<times> string) list" where
  "difficulty_colors =
    [(''easy'', ''#22c55e''), (''moderate'', ''#eab308''), (''difficult'', ''#ef4444'')]"

definition getDifficultyColor :: "string option \<Rightarrow> string lookup" where
  "getDifficultyColor diff =
     or_default (\<lambda>v. v \<noteq> []) (get_property difficulty_colors (property_key diff)) ''#6b7280''"

text \<open>
  The state of \<open>App\<close> that trip planning and the selection use. \<open>plan_pending\<close> counts
  the \<open>planTrip\<close> calls that wait for their response.
\<close>

record app =
  tripPlan :: "trip_plan option"
  loading :: bool
  error :: "string option"
  selectedCampsite :: "site option"
  plan_pending :: nat

definition init_app :: app where
  "init_app = \<lparr> tripPlan = None, loading = False, error = None, selectedCampsite = None,
     plan_pending = 0 \<rparr>"

text \<open>\<open>planTrip\<close> up to \<open>await fetch(...)\<close>.\<close>

definition planTrip :: "app \<Rightarrow> app" where
  "planTrip s = s\<lparr> loading := True, error := None, selectedCampsite := None,
     plan_pending := plan_pending s + 1 \<rparr>"

text \<open>
  What comes back: a successful response with its JSON value, a response that is not
  \<open>ok\<close>, or a rejection of \<open>fetch\<close> or of \<open>response.json()\<close> with its message.
\<close>

datatype plan_response = PlanOk trip_plan | PlanNotOk | PlanRejected string

text \<open>The rest of \<open>planTrip\<close>: \<open>try\<close>, \<open>catch\<close>, \<open>finally\<close>.\<close>

definition planTrip_resume :: "plan_response \<Rightarrow> app \<Rightarrow> app" where
  "planTrip_resume resp s =
     (case resp of
        PlanOk data \<Rightarrow> s\<lparr> tripPlan := Some data, loading := False \<rparr>
      | PlanNotOk \<Rightarrow> s\<lparr> error := Some ''Failed to plan trip'', loading := False \<rparr>
      | PlanRejected msg \<Rightarrow> s\<lparr> error := Some msg, loading := False \<rparr>)"

text \<open>\<open>handleCampsiteSelect\<close>; scrolling the details into view is not modelled.\<close>

definition handleCampsiteSelect :: "site \<Rightarrow> app \<Rightarrow> app" where
  "handleCampsiteSelect st s = s\<lparr> selectedCampsite := Some st \<rparr>"

text \<open>
  The campsites the page shows and lets the user click: the suggested campsite of every
  segment and the nearby campsites of the stored plan. They stay on the page while a
  new plan is loading.
\<close>

definition rendered_sites :: "trip_plan option \<Rightarrow> site list" where
  "rendered_sites tp =
     (case tp of
        None \<Rightarrow> []
      | Some p \<Rightarrow>
          concat (map (\<lambda>g. case suggested_campsite g of None \<Rightarrow> [] | Some st \<Rightarrow> [st]) (segments p)) @
          (case nearby_campsites p of None \<Rightarrow> [] | Some sites \<Rightarrow> sites))"

text \<open>
  The events of the page: the plan button (disabled while \<open>loading\<close>), a click on a
  campsite that is shown, the clear button, and the arrival of a plan response.
\<close>

datatype app_event = ClickPlan | ClickSite site | ClickClear | PlanResponse plan_response

fun app_step :: "app \<Rightarrow> app_event \<Rightarrow> app" where
  "app_step s ClickPlan = (if loading s then s else planTrip s)"
| "app_step s (ClickSite st) =
     (if st \<in> set (rendered_sites (tripPlan s)) then handleCampsiteSelect st s else s)"
| "app_step s ClickClear = s\<lparr> selectedCampsite := None \<rparr>"
| "app_step s (PlanResponse resp) =
     (if plan_pending s = 0 then s
      else planTrip_resume resp (s\<lparr> plan_pending := plan_pending s - 1 \<rparr>))"

definition app_run :: "app \<Rightarrow> app_event list \<Rightarrow> app" where
  "app_run s evs = foldl app_step s evs"

section \<open>Notions used to state the properties\<close>

text \<open>A field of the address record is present: it exists and is not the empty string.\<close>

definition present :: "string option \<Rightarrow> bool" where
  "present v = (case v of None \<Rightarrow> False | Some s \<Rightarrow> s \<noteq> [])"

fun first_present :: "string option list \<Rightarrow> string option" where
  "first_present [] = None"
| "first_present (v # vs) = (if present v then v else first_present vs)"

text \<open>The city field of the spec: the first present of city, town, village, hamlet, county.\<close>

definition city_field :: "address \<Rightarrow> string option" where
  "city_field a = first_present [city a, town a, village a, hamlet a, county a]"

text \<open>The route geometry that was supplied, empty when there is no plan or no geometry.\<close>

definition supplied_geometry :: "trip_plan option \<Rightarrow> (real \<times> real) list" where
  "supplied_geometry tp =
     (case tp of None \<Rightarrow> [] | Some p \<Rightarrow> (case route_geometry p of None \<Rightarrow> [] | Some g \<Rightarrow> g))"





section \<open>Concrete inputs for the examples\<close>

text \<open>
  An instance of \<open>parseFloat\<close> for the closed examples: its values on the four coordinate
  strings the application starts with. The examples read it nowhere else.
\<close>

definition parseFloat_sample :: "string \<Rightarrow> real" where
  "parseFloat_sample s =
     (case map_of [(''30.27'', 30.27), (''-97.74'', -97.74), (''39.74'', 39.74),
                   (''-104.99'', -104.99)] s of
        None \<Rightarrow> 0 | Some x \<Rightarrow> x)"

definition result_austin :: nominatim_result where
  "result_austin = \<lparr> r_address = Some (empty_address\<lparr> city := Some ''Austin'',
       state := Some ''Texas'', country_code := Some ''us'' \<rparr>),
     r_display_name = Some ''Austin, Travis County, Texas, United States'',
     r_lat = ''30.27'', r_lon = ''-97.74'' \<rparr>"

definition result_denver :: nominatim_result where
  "result_denver = \<lparr> r_address = Some (empty_address\<lparr> city := Some ''Denver'',
       state := Some ''Colorado'', country_code := Some ''us'' \<rparr>),
     r_display_name = Some ''Denver, Colorado, United States'',
     r_lat = ''39.74'', r_lon = ''-104.99'' \<rparr>"

definition site_a :: site where
  "site_a = \<lparr> site_id = ''a'', site_name = ''Alpha Camp'', site_type = Some ''dispersed'',
     site_lat = 31.5, site_lon = -99.25, cell_service = Some ''weak'', difficulty = Some ''easy'' \<rparr>"

definition site_b :: site where
  "site_b = \<lparr> site_id = ''b'', site_name = ''Bravo Camp'', site_type = Some ''rv_park'',
     site_lat = 36.5, site_lon = -103.5, cell_service = None, difficulty = None \<rparr>"

definition plan_a :: trip_plan where
  "plan_a = \<lparr> segments = [], nearby_campsites = Some [site_a],
     route_geometry = Some [(-97.74, 30.27), (-104.99, 39.74)] \<rparr>"

definition plan_b :: trip_plan where
  "plan_b = \<lparr> segments = [], nearby_campsites = Some [site_b], route_geometry = Some [] \<rparr>"

definition result_moab :: nominatim_result where
  "result_moab = \<lparr> r_address = Some (empty_address\<lparr> town := Some ''Moab'',
       country_code := Some ''us'' \<rparr>),
     r_display_name = Some ''Moab, Grand County, Utah, United States'',
     r_lat = ''38.57'', r_lon = ''-109.55'' \<rparr>"

definition result_plain :: nominatim_result where
  "result_plain = \<lparr> r_address = None,
     r_display_name = Some ''Big Bend National Park , Brewster County, Texas'',
     r_lat = ''29.25'', r_lon = ''-103.25'' \<rparr>"



section \<open>Properties\<close>

subsection \<open>The search field: basic facts\<close>

lemma run_Nil: "run pf s [] = s"
  by (simp add: run_def)

lemma run_Cons: "run pf s (e # evs) = run pf (step pf s e) evs"
  by (simp add: run_def)

lemma run_append: "run pf s (xs @ ys) = run pf (run pf s xs) ys"
  by (simp add: run_def)

lemma geocodeCity_short: "length q < 3 \<Longrightarrow> geocodeCity q s = s\<lparr> suggestions := [] \<rparr>"
  by (simp add: geocodeCity_def)

lemma geocodeCity_long:
  assumes "timer_inv s" "3 \<le> length q"
  shows "geocodeCity q s = s\<lparr> timers := [(nextTimer s, clock s + 400, q)],
           timerRef := Some (nextTimer s), nextTimer := nextTimer s + 1 \<rparr>"
  using assms
  by (auto simp: geocodeCity_def timer_inv_def clearTimeout_def Let_def split: list.splits option.splits)

lemma timer_inv_geocodeCity: "timer_inv s \<Longrightarrow> timer_inv (geocodeCity q s)"
proof (cases "length q < 3")
  case True
  assume "timer_inv s"
  with True show ?thesis by (auto simp: geocodeCity_short timer_inv_def split: list.splits)
next
  case False
  assume "timer_inv s"
  with False show ?thesis by (simp add: geocodeCity_long) (simp add: timer_inv_def)
qed

lemma timer_inv_tick: "timer_inv s \<Longrightarrow> timer_inv (tick d s)"
  by (auto simp: timer_inv_def tick_def timer_callback_def Let_def split: list.splits)

lemma on_response_Inr:
  "on_response pf resp s =
     Inr (s\<lparr> suggestions := (case try_body pf resp of Inr sg \<Rightarrow> sg | Inl err \<Rightarrow> []),
            searching := False \<rparr>)"
  by (simp add: on_response_def split: sum.splits)

lemma deliver_keeps:
  "timers (deliver pf rid resp s) = timers s \<and> calls (deliver pf rid resp s) = calls s \<and>
   clock (deliver pf rid resp s) = clock s \<and> timerRef (deliver pf rid resp s) = timerRef s \<and>
   nextTimer (deliver pf rid resp s) = nextTimer s"
  by (simp add: deliver_def on_response_Inr Let_def)

lemma timer_inv_deliver: "timer_inv s \<Longrightarrow> timer_inv (deliver pf rid resp s)"
  by (auto simp: timer_inv_def deliver_keeps split: list.splits)

lemma timer_inv_step: "timer_inv s \<Longrightarrow> timer_inv (step pf s e)"
  by (cases e) (simp_all add: timer_inv_geocodeCity timer_inv_tick timer_inv_deliver)

lemma timer_inv_run: "timer_inv s \<Longrightarrow> timer_inv (run pf s evs)"
  by (induction evs arbitrary: s) (simp_all add: run_Nil run_Cons timer_inv_step)

lemma timer_inv_init: "timer_inv init_field"
  by (simp add: timer_inv_def init_field_def)

lemma timer_inv_reachable: "timer_inv (run pf init_field hist)"
  by (rule timer_inv_run [OF timer_inv_init])

lemma tick_no_timer:
  "timers s = [] \<Longrightarrow> tick d s = s\<lparr> clock := clock s + d \<rparr>"
  by (simp add: tick_def)

lemma tick_before_due:
  "timers s = [(i, due, q)] \<Longrightarrow> clock s + d < due \<Longrightarrow> tick d s = s\<lparr> clock := clock s + d \<rparr>"
  by (simp add: tick_def)

lemma tick_at_due:
  "timers s = [(i, due, q)] \<Longrightarrow> due \<le> clock s + d \<Longrightarrow>
   tick d s = timer_callback q (s\<lparr> clock := clock s + d, timers := [] \<rparr>)"
  by (simp add: tick_def)

lemma key_then_wait:
  assumes "timer_inv s" "3 \<le> length q" "400 \<le> d"
  shows "run pf s [Keystroke q, Tick d] =
           s\<lparr> timers := [], timerRef := Some (nextTimer s), nextTimer := nextTimer s + 1,
              clock := clock s + d, searching := True, calls := calls s @ [q],
              inflight := inflight s @ [(nextRequest s, q)],
              nextRequest := nextRequest s + 1 \<rparr>"
proof -
  let ?s1 = "geocodeCity q s"
  have s1: "?s1 = s\<lparr> timers := [(nextTimer s, clock s + 400, q)],
           timerRef := Some (nextTimer s), nextTimer := nextTimer s + 1 \<rparr>"
    using assms(1,2) by (rule geocodeCity_long)
  have "timers ?s1 = [(nextTimer s, clock s + 400, q)]" "clock s + 400 \<le> clock ?s1 + d"
    using assms(3) by (simp_all add: s1)
  then have "tick d ?s1 = timer_callback q (?s1\<lparr> clock := clock ?s1 + d, timers := [] \<rparr>)"
    by (rule tick_at_due)
  then show ?thesis
    by (simp add: run_Cons run_Nil s1 timer_callback_def)
qed


lemma quiet_Cons: "quiet (e # evs) = (\<not> is_Keystroke e \<and> quiet evs)"
  by (simp add: quiet_def)

lemma quiet_no_timer:
  "quiet evs \<Longrightarrow> timers s = [] \<Longrightarrow>
   timers (run pf s evs) = [] \<and> calls (run pf s evs) = calls s"
proof (induction evs arbitrary: s)
  case Nil
  then show ?case by (simp add: run_Nil)
next
  case (Cons e evs)
  then have q: "quiet evs" by (simp add: quiet_Cons)
  show ?case
  proof (cases e)
    case (Keystroke x)
    with Cons.prems show ?thesis by (simp add: quiet_Cons)
  next
    case (Tick d)
    have "timers (tick d s) = []" "calls (tick d s) = calls s"
      using Cons.prems by (simp_all add: tick_no_timer)
    with Cons.IH[OF q, of "tick d s"] Tick show ?thesis by (simp add: run_Cons)
  next
    case (Response rid resp)
    have "timers (deliver pf rid resp s) = []" "calls (deliver pf rid resp s) = calls s"
      using Cons.prems by (simp_all add: deliver_keeps)
    with Cons.IH[OF q, of "deliver pf rid resp s"] Response show ?thesis by (simp add: run_Cons)
  qed
qed

lemma quiet_before_due:
  "quiet evs \<Longrightarrow> timers s = [(i, due, q)] \<Longrightarrow> clock s + elapsed evs < due \<Longrightarrow>
   timers (run pf s evs) = [(i, due, q)] \<and> calls (run pf s evs) = calls s"
proof (induction evs arbitrary: s)
  case Nil
  then show ?case by (simp add: run_Nil)
next
  case (Cons e evs)
  then have q: "quiet evs" by (simp add: quiet_Cons)
  show ?case
  proof (cases e)
    case (Keystroke x)
    with Cons.prems show ?thesis by (simp add: quiet_Cons)
  next
    case (Tick d)
    from Cons.prems Tick have lt: "clock s + d < due" by simp
    have t: "tick d s = s\<lparr> clock := clock s + d \<rparr>"
      using Cons.prems(2) lt by (rule tick_before_due)
    have "timers (tick d s) = [(i, due, q)]" "clock (tick d s) + elapsed evs < due"
      using Cons.prems Tick by (simp_all add: t)
    from Cons.IH[OF q this] Tick show ?thesis by (simp add: run_Cons t)
  next
    case (Response rid resp)
    have "timers (deliver pf rid resp s) = [(i, due, q)]"
         "clock (deliver pf rid resp s) + elapsed evs < due"
      using Cons.prems Response by (simp_all add: deliver_keeps)
    from Cons.IH[OF q this] Response show ?thesis by (simp add: run_Cons deliver_keeps)
  qed
qed

lemma quiet_past_due:
  "quiet evs \<Longrightarrow> timers s = [(i, due, q)] \<Longrightarrow> clock s < due \<Longrightarrow>
   due \<le> clock s + elapsed evs \<Longrightarrow>
   timers (run pf s evs) = [] \<and> calls (run pf s evs) = calls s @ [q]"
proof (induction evs arbitrary: s)
  case Nil
  then show ?case by simp
next
  case (Cons e evs)
  then have q: "quiet evs" by (simp add: quiet_Cons)
  show ?case
  proof (cases e)
    case (Keystroke x)
    with Cons.prems show ?thesis by (simp add: quiet_Cons)
  next
    case (Tick d)
    show ?thesis
    proof (cases "due \<le> clock s + d")
      case True
      have t: "tick d s = timer_callback q (s\<lparr> clock := clock s + d, timers := [] \<rparr>)"
        using Cons.prems(2) True by (rule tick_at_due)
      have "timers (tick d s) = []" "calls (tick d s) = calls s @ [q]"
        by (simp_all add: t timer_callback_def)
      with quiet_no_timer[OF q, of "tick d s" pf] Tick show ?thesis by (simp add: run_Cons)
    next
      case False
      then have lt: "clock s + d < due" by simp
      have t: "tick d s = s\<lparr> clock := clock s + d \<rparr>"
        using Cons.prems(2) lt by (rule tick_before_due)
      have "timers (tick d s) = [(i, due, q)]" "clock (tick d s) < due"
           "due \<le> clock (tick d s) + elapsed evs"
        using Cons.prems Tick lt by (simp_all add: t)
      from Cons.IH[OF q this] Tick show ?thesis by (simp add: run_Cons t)
    qed
  next
    case (Response rid resp)
    have "timers (deliver pf rid resp s) = [(i, due, q)]"
         "clock (deliver pf rid resp s) < due"
         "due \<le> clock (deliver pf rid resp s) + elapsed evs"
      using Cons.prems Response by (simp_all add: deliver_keeps)
    from Cons.IH[OF q this] Response show ?thesis by (simp add: run_Cons deliver_keeps)
  qed
qed

lemma burst_Cons: "burst ((q, evs) # segs) = Keystroke q # evs @ burst segs"
  by (simp add: burst_def)

lemma burst_calls:
  "timer_inv s \<Longrightarrow> segs \<noteq> [] \<Longrightarrow>
   list_all (\<lambda>(q, evs). 3 \<le> length q \<and> quiet evs) segs \<Longrightarrow>
   list_all (\<lambda>(q, evs). elapsed evs < 400) (butlast segs) \<Longrightarrow>
   400 \<le> elapsed (snd (last segs)) \<Longrightarrow>
   calls (run pf s (burst segs)) = calls s @ [fst (last segs)] \<and>
   timers (run pf s (burst segs)) = []"
proof (induction segs arbitrary: s)
  case Nil
  then show ?case by simp
next
  case (Cons seg segs)
  obtain q evs where seg: "seg = (q, evs)" by (cases seg)
  from Cons.prems(3) seg have len: "3 \<le> length q" and qu: "quiet evs" by simp_all
  let ?s1 = "geocodeCity q s"
  have s1: "?s1 = s\<lparr> timers := [(nextTimer s, clock s + 400, q)],
           timerRef := Some (nextTimer s), nextTimer := nextTimer s + 1 \<rparr>"
    using Cons.prems(1) len by (rule geocodeCity_long)
  have tm: "timers ?s1 = [(nextTimer s, clock s + 400, q)]" by (simp add: s1)
  have cl: "clock ?s1 = clock s" and ca: "calls ?s1 = calls s" by (simp_all add: s1)
  have r: "run pf s (burst (seg # segs)) = run pf (run pf ?s1 evs) (burst segs)"
    by (simp add: seg burst_Cons run_Cons run_append)
  show ?case
  proof (cases "segs = []")
    case True
    with Cons.prems(5) seg have "clock s + 400 \<le> clock ?s1 + elapsed evs" by (simp add: cl)
    with quiet_past_due[OF qu tm, of pf] have
      "timers (run pf ?s1 evs) = [] \<and> calls (run pf ?s1 evs) = calls s @ [q]"
      by (simp add: cl ca)
    with True seg r show ?thesis by (simp add: burst_def run_Nil)
  next
    case False
    with Cons.prems(4) seg have "clock ?s1 + elapsed evs < clock s + 400" by (simp add: cl)
    with quiet_before_due[OF qu tm, of pf] have
      same: "calls (run pf ?s1 evs) = calls s"
      by (simp add: ca)
    have inv: "timer_inv (run pf ?s1 evs)"
      using Cons.prems(1) by (intro timer_inv_run timer_inv_geocodeCity)
    have "calls (run pf (run pf ?s1 evs) (burst segs)) = calls (run pf ?s1 evs) @ [fst (last segs)] \<and>
          timers (run pf (run pf ?s1 evs) (burst segs)) = []"
      using Cons.prems(3,4,5) False by (intro Cons.IH[OF inv False]) simp_all
    with False r same show ?thesis by simp
  qed
qed


lemma deliver_applies:
  "rid \<in> fst ` set (inflight s) \<Longrightarrow>
   deliver pf rid resp s =
     s\<lparr> inflight := filter (\<lambda>(i, q). i \<noteq> rid) (inflight s),
        suggestions := (case try_body pf resp of Inr sg \<Rightarrow> sg | Inl err \<Rightarrow> []),
        searching := False \<rparr>"
  by (simp add: deliver_def on_response_Inr Let_def)

text \<open>Unfolding rules for evaluating the model on concrete inputs.\<close>

lemmas field_eval = run_def init_field_def geocodeCity_def tick_def timer_callback_def
  clearTimeout_def deliver_def on_response_def Let_def

lemmas result_eval = to_suggestion_def buildShortName_def empty_address_def or_else_def
  result_austin_def result_denver_def parseFloat_sample_def
  toUpperCase_def toUpperCase_char_def code_units_def trim_def is_white_space_def

subsection \<open>C1: which response the suggestion list shows\<close>

text \<open>
  C1 (as amended). The code keeps no sequence number and compares nothing when a response
  arrives: every response of a request in flight replaces the suggestion list. When query
  Q1 and then query Q2 have both been sent (each keystroke followed by at least 400 ms),
  Q2's response arrives first and Q1's response arrives after it with a list that maps
  without error, the list finally shown is Q1's: the last response to arrive wins, not
  the last request issued.
\<close>

theorem last_response_wins:
  assumes "timer_inv s" "3 \<le> length q1" "3 \<le> length q2" "400 \<le> d1" "400 \<le> d2"
    and "map_suggestions pf data1 = Inr sg1"
  shows "inflight (run pf s [Keystroke q1, Tick d1, Keystroke q2, Tick d2]) =
           inflight s @ [(nextRequest s, q1), (nextRequest s + 1, q2)] \<and>
         suggestions (run pf s [Keystroke q1, Tick d1, Keystroke q2, Tick d2,
            Response (nextRequest s + 1) resp2, Response (nextRequest s) (Results data1)]) = sg1"
proof -
  let ?a = "run pf s [Keystroke q1, Tick d1]"
  let ?b = "run pf ?a [Keystroke q2, Tick d2]"
  have a: "?a = s\<lparr> timers := [], timerRef := Some (nextTimer s), nextTimer := nextTimer s + 1,
              clock := clock s + d1, searching := True, calls := calls s @ [q1],
              inflight := inflight s @ [(nextRequest s, q1)],
              nextRequest := nextRequest s + 1 \<rparr>"
    using assms(1,2,4) by (rule key_then_wait)
  have inv_a: "timer_inv ?a" using assms(1) by (rule timer_inv_run)
  have b: "?b = ?a\<lparr> timers := [], timerRef := Some (nextTimer ?a), nextTimer := nextTimer ?a + 1,
              clock := clock ?a + d2, searching := True, calls := calls ?a @ [q2],
              inflight := inflight ?a @ [(nextRequest ?a, q2)],
              nextRequest := nextRequest ?a + 1 \<rparr>"
    using inv_a assms(3,5) by (rule key_then_wait)
  have infl: "inflight ?b = inflight s @ [(nextRequest s, q1), (nextRequest s + 1, q2)]"
    by (simp add: b) (simp add: a)
  let ?c = "deliver pf (nextRequest s + 1) resp2 ?b"
  have "nextRequest s + 1 \<in> fst ` set (inflight ?b)" by (simp add: infl)
  then have c: "inflight ?c = filter (\<lambda>(i, q). i \<noteq> nextRequest s + 1) (inflight ?b)"
    by (simp add: deliver_applies)
  have "(nextRequest s, q1) \<in> set (inflight ?c)"
    unfolding c infl by simp
  then have "nextRequest s \<in> fst ` set (inflight ?c)"
    by force
  then have "suggestions (deliver pf (nextRequest s) (Results data1) ?c) = sg1"
    by (simp add: deliver_applies assms(6))
  moreover have "run pf s [Keystroke q1, Tick d1, Keystroke q2, Tick d2] = ?b"
    by (simp add: run_Cons run_Nil)
  moreover have "run pf s [Keystroke q1, Tick d1, Keystroke q2, Tick d2,
            Response (nextRequest s + 1) resp2, Response (nextRequest s) (Results data1)] =
           deliver pf (nextRequest s) (Results data1) ?c"
    by (simp add: run_Cons run_Nil)
  ultimately show ?thesis using infl by simp
qed

text \<open>
  C1 as stated fails: query \<open>aus\<close> is sent as request 1, query \<open>den\<close> as request 2, the
  response of request 2 arrives and shows Denver, then the response of request 1 arrives
  and the list shows Austin, the result of the older query.
\<close>

theorem stale_response_overwrites_counterexample:
  "inflight (run parseFloat_sample init_field
      [Keystroke ''aus'', Tick 400, Keystroke ''den'', Tick 400]) = [(1, ''aus''), (2, ''den'')] \<and>
   suggestions (run parseFloat_sample init_field
      [Keystroke ''aus'', Tick 400, Keystroke ''den'', Tick 400,
       Response 2 (Results [result_denver])]) =
     [\<lparr> name = Some ''Denver, Colorado, United States'', lat = 39.74, lon = -104.99,
        shortName = code_units ''Denver, Colorado'' \<rparr>] \<and>
   suggestions (run parseFloat_sample init_field
      [Keystroke ''aus'', Tick 400, Keystroke ''den'', Tick 400,
       Response 2 (Results [result_denver]), Response 1 (Results [result_austin])]) =
     [\<lparr> name = Some ''Austin, Travis County, Texas, United States'', lat = 30.27, lon = -97.74,
        shortName = code_units ''Austin, Texas'' \<rparr>]"
  by (simp add: field_eval result_eval)

theorem last_response_wins_witness:
  "timer_inv init_field \<and> 3 \<le> length ''aus'' \<and> 3 \<le> length ''den'' \<and> (400::nat) \<le> 400 \<and>
   map_suggestions parseFloat_sample [result_austin] =
     Inr [\<lparr> name = Some ''Austin, Travis County, Texas, United States'', lat = 30.27,
        lon = -97.74, shortName = code_units ''Austin, Texas'' \<rparr>] \<and>
   suggestions (run parseFloat_sample init_field
      [Keystroke ''aus'', Tick 400, Keystroke ''den'', Tick 400,
       Response (nextRequest init_field + 1) (Results [result_denver]),
       Response (nextRequest init_field) (Results [result_austin])]) =
     [\<lparr> name = Some ''Austin, Travis County, Texas, United States'', lat = 30.27,
        lon = -97.74, shortName = code_units ''Austin, Texas'' \<rparr>]"
proof -
  have m: "map_suggestions parseFloat_sample [result_austin] =
     Inr [\<lparr> name = Some ''Austin, Travis County, Texas, United States'', lat = 30.27,
        lon = -97.74, shortName = code_units ''Austin, Texas'' \<rparr>]"
    by (simp add: result_eval)
  have l: "3 \<le> length ''aus''" "3 \<le> length ''den''" "(400::nat) \<le> 400" by simp_all
  from last_response_wins [OF timer_inv_init l(1) l(2) l(3) l(3) m,
      of "Results [result_denver]"]
  show ?thesis using m l timer_inv_init by simp
qed

subsection \<open>C4: debouncing\<close>

text \<open>
  C4 (as amended). At any moment after the state \<open>s\<close>, a keystroke whose query has at
  least three characters cancels the pending timer of the field and schedules a new
  one, due 400 ms later, so that exactly one timer is pending afterwards. Hence a burst
  of such keystrokes, with less than 400 ms between consecutive keystrokes and at least
  400 ms after the last one, issues exactly one network call, for the last query,
  whatever responses arrive meanwhile.
\<close>

theorem debounce_one_call_per_burst:
  assumes "timer_inv s" "segs \<noteq> []"
    and "list_all (\<lambda>(q, evs). 3 \<le> length q \<and> quiet evs) segs"
    and "list_all (\<lambda>(q, evs). elapsed evs < 400) (butlast segs)"
    and "400 \<le> elapsed (snd (last segs))"
  shows "calls (run pf s (burst segs)) = calls s @ [fst (last segs)] \<and>
         (\<forall>pre q. 3 \<le> length q \<longrightarrow>
            timers (geocodeCity q (run pf s pre)) =
              [(nextTimer (run pf s pre), clock (run pf s pre) + 400, q)])"
proof -
  have "timers (geocodeCity q (run pf s pre)) =
      [(nextTimer (run pf s pre), clock (run pf s pre) + 400, q)]"
    if "3 \<le> length q" for pre q
    using geocodeCity_long [OF timer_inv_run [OF assms(1)] that] by simp
  with burst_calls [OF assms] show ?thesis by simp
qed

theorem debounce_one_call_per_burst_witness:
  "timer_inv init_field \<and>
   list_all (\<lambda>(q, evs). 3 \<le> length q \<and> quiet evs)
     [(''aus'', [Tick 100]), (''aust'', [Tick 399]), (''austin'', [Tick 400])] \<and>
   list_all (\<lambda>(q, evs). elapsed evs < 400) [(''aus'', [Tick 100]), (''aust'', [Tick 399])] \<and>
   calls (run parseFloat_sample init_field
     [Keystroke ''aus'', Tick 100, Keystroke ''aust'', Tick 399, Keystroke ''austin'', Tick 400]) =
     [''austin''] \<and>
   timers (geocodeCity ''aust'' (run parseFloat_sample init_field [Keystroke ''aus'', Tick 100])) =
     [(2, 500, ''aust'')]"
proof -
  let ?segs = "[(''aus'', [Tick 100]), (''aust'', [Tick 399]), (''austin'', [Tick 400])]"
  have a: "?segs \<noteq> []" by simp
  have b: "list_all (\<lambda>(q, evs). 3 \<le> length q \<and> quiet evs) ?segs" by (simp add: quiet_def)
  have c: "list_all (\<lambda>(q, evs). elapsed evs < 400) (butlast ?segs)" by simp
  have d: "400 \<le> elapsed (snd (last ?segs))" by simp
  have e: "nextTimer (run parseFloat_sample init_field [Keystroke ''aus'', Tick 100]) = 2"
    "clock (run parseFloat_sample init_field [Keystroke ''aus'', Tick 100]) = 100"
    by (simp_all add: field_eval)
  note w = debounce_one_call_per_burst [OF timer_inv_init a b c d, of parseFloat_sample]
  from w have "calls (run parseFloat_sample init_field (burst ?segs)) =
      calls init_field @ [fst (last ?segs)]" by blast
  then have 1: "calls (run parseFloat_sample init_field
     [Keystroke ''aus'', Tick 100, Keystroke ''aust'', Tick 399, Keystroke ''austin'', Tick 400]) =
     [''austin'']" by (simp add: burst_def init_field_def)
  from w have "timers (geocodeCity ''aust''
      (run parseFloat_sample init_field [Keystroke ''aus'', Tick 100])) =
     [(nextTimer (run parseFloat_sample init_field [Keystroke ''aus'', Tick 100]),
       clock (run parseFloat_sample init_field [Keystroke ''aus'', Tick 100]) + 400, ''aust'')]"
    by simp
  then have 2: "timers (geocodeCity ''aust''
      (run parseFloat_sample init_field [Keystroke ''aus'', Tick 100])) = [(2, 500, ''aust'')]"
    by (simp only: e) simp
  from 1 2 b c timer_inv_init show ?thesis by simp
qed

text \<open>
  C4 as stated fails when the burst contains a query shorter than three characters:
  the keystroke \<open>ab\<close>, 300 ms after \<open>abc\<close>, leaves the pending timer as it is and
  schedules none, and the burst \<open>abc\<close>, \<open>ab\<close>, \<open>abcd\<close> with gaps of 300 ms issues two
  network calls.
\<close>

theorem short_query_in_burst_counterexample:
  "elapsed [Tick 300] < 400 \<and>
   timers (run parseFloat_sample init_field [Keystroke ''abc'', Tick 300]) = [(1, 400, ''abc'')] \<and>
   timers (run parseFloat_sample init_field [Keystroke ''abc'', Tick 300, Keystroke ''ab'']) =
     [(1, 400, ''abc'')] \<and>
   calls (run parseFloat_sample init_field
     [Keystroke ''abc'', Tick 300, Keystroke ''ab'', Tick 300, Keystroke ''abcd'', Tick 400]) =
     [''abc'', ''abcd'']"
  by (simp add: field_eval)

subsection \<open>C8: failed searches\<close>

text \<open>
  C8. When the network call or the parsing of its response fails (\<open>fetch\<close> rejects,
  the body is not JSON, the value is not an array, or mapping a result throws), no
  exception leaves the callback, the suggestion list of the field is empty afterwards
  and its searching indicator is off.
\<close>

theorem failed_search_is_swallowed:
  assumes "failed pf resp"
  shows "(\<exists>s'. on_response pf resp s = Inr s' \<and> suggestions s' = [] \<and> \<not> searching s') \<and>
         (rid \<in> fst ` set (inflight s) \<longrightarrow>
            suggestions (deliver pf rid resp s) = [] \<and> \<not> searching (deliver pf rid resp s))"
proof -
  from assms obtain err where "try_body pf resp = Inl err"
    by (auto simp: failed_def split: sum.splits)
  then show ?thesis
    by (simp add: on_response_def deliver_applies)
qed

theorem failed_search_is_swallowed_witness:
  "failed parseFloat_sample JsonRejected \<and>
   failed parseFloat_sample FetchRejected \<and>
   failed parseFloat_sample (Results [result_austin\<lparr> r_address := None, r_display_name := None \<rparr>]) \<and>
   suggestions (run parseFloat_sample init_field
     [Keystroke ''aus'', Tick 400, Response 1 (Results [result_austin]), Keystroke ''den'',
      Tick 400, Response 2 JsonRejected]) = [] \<and>
   \<not> searching (run parseFloat_sample init_field
     [Keystroke ''aus'', Tick 400, Response 1 (Results [result_austin]), Keystroke ''den'',
      Tick 400, Response 2 JsonRejected])"
proof -
  let ?s = "run parseFloat_sample init_field
     [Keystroke ''aus'', Tick 400, Response 1 (Results [result_austin]), Keystroke ''den'',
      Tick 400]"
  have f: "failed parseFloat_sample JsonRejected" "failed parseFloat_sample FetchRejected"
    "failed parseFloat_sample (Results [result_austin\<lparr> r_address := None, r_display_name := None \<rparr>])"
    by (simp_all add: failed_def result_eval)
  have i: "2 \<in> fst ` set (inflight ?s)"
    by (simp add: field_eval result_eval)
  from failed_search_is_swallowed [OF f(1), of ?s 2] i
  have "suggestions (deliver parseFloat_sample 2 JsonRejected ?s) = [] \<and>
        \<not> searching (deliver parseFloat_sample 2 JsonRejected ?s)" by blast
  then show ?thesis using f by (simp add: run_def)
qed

subsection \<open>C10: a short query does not cancel the pending timer\<close>

text \<open>
  C10. A query of at least three characters is followed, less than 400 ms later, by a
  query of fewer than three characters: \<open>geocodeCity\<close> empties the suggestion list and
  returns with the timer of the longer query still pending and no call issued so far.
  When the 400 ms are over the network call for the longer query is issued, and when
  its results arrive they replace the emptied list.
\<close>

theorem short_query_leaves_timer:
  assumes "timer_inv s" "3 \<le> length q1" "length q2 < 3" "d1 < 400" "400 \<le> d1 + d2"
    and "map_suggestions pf data = Inr sg"
  shows "suggestions (run pf s [Keystroke q1, Tick d1, Keystroke q2]) = [] \<and>
         timers (run pf s [Keystroke q1, Tick d1, Keystroke q2]) =
           [(nextTimer s, clock s + 400, q1)] \<and>
         calls (run pf s [Keystroke q1, Tick d1, Keystroke q2]) = calls s \<and>
         calls (run pf s [Keystroke q1, Tick d1, Keystroke q2, Tick d2]) = calls s @ [q1] \<and>
         suggestions (run pf s [Keystroke q1, Tick d1, Keystroke q2, Tick d2,
            Response (nextRequest s) (Results data)]) = sg"
proof -
  let ?A = "s\<lparr> timers := [(nextTimer s, clock s + 400, q1)],
           timerRef := Some (nextTimer s), nextTimer := nextTimer s + 1 \<rparr>"
  let ?B = "?A\<lparr> clock := clock ?A + d1 \<rparr>"
  let ?C = "?B\<lparr> suggestions := [] \<rparr>"
  let ?D = "timer_callback q1 (?C\<lparr> clock := clock ?C + d2, timers := [] \<rparr>)"
  have a: "geocodeCity q1 s = ?A"
    using assms(1,2) by (rule geocodeCity_long)
  have "timers ?A = [(nextTimer s, clock s + 400, q1)]" "clock ?A + d1 < clock s + 400"
    using assms(4) by simp_all
  then have b: "tick d1 ?A = ?B" by (rule tick_before_due)
  have c: "geocodeCity q2 ?B = ?C" using assms(3) by (rule geocodeCity_short)
  have "timers ?C = [(nextTimer s, clock s + 400, q1)]" "clock s + 400 \<le> clock ?C + d2"
    using assms(5) by simp_all
  then have d: "tick d2 ?C = ?D" by (rule tick_at_due)
  have r3: "run pf s [Keystroke q1, Tick d1, Keystroke q2] = ?C"
    by (simp only: run_Cons run_Nil step.simps a b c)
  have r4: "run pf s [Keystroke q1, Tick d1, Keystroke q2, Tick d2] = ?D"
    by (simp only: run_Cons run_Nil step.simps a b c d)
  have r5: "run pf s [Keystroke q1, Tick d1, Keystroke q2, Tick d2,
            Response (nextRequest s) (Results data)] = deliver pf (nextRequest s) (Results data) ?D"
    by (simp only: run_Cons run_Nil step.simps a b c d)
  have "inflight ?D = inflight s @ [(nextRequest s, q1)]"
    by (simp add: timer_callback_def)
  then have "nextRequest s \<in> fst ` set (inflight ?D)" by simp
  then have e: "suggestions (deliver pf (nextRequest s) (Results data) ?D) = sg"
    by (simp add: deliver_applies assms(6))
  have 1: "suggestions ?C = []" by simp
  have 2: "timers ?C = [(nextTimer s, clock s + 400, q1)]" by simp
  have 3: "calls ?C = calls s" by simp
  have 4: "calls ?D = calls s @ [q1]" by (simp add: timer_callback_def)
  show ?thesis unfolding r3 r4 r5 using 1 2 3 4 e by blast
qed

theorem short_query_leaves_timer_witness:
  "timer_inv init_field \<and> 3 \<le> length ''aus'' \<and> length ''au'' < 3 \<and> (200::nat) < 400 \<and>
   (400::nat) \<le> 200 + 200 \<and>
   suggestions (run parseFloat_sample init_field
     [Keystroke ''aus'', Tick 200, Keystroke ''au'']) = [] \<and>
   timers (run parseFloat_sample init_field
     [Keystroke ''aus'', Tick 200, Keystroke ''au'']) = [(1, 400, ''aus'')] \<and>
   calls (run parseFloat_sample init_field
     [Keystroke ''aus'', Tick 200, Keystroke ''au'', Tick 200]) = [''aus''] \<and>
   suggestions (run parseFloat_sample init_field
     [Keystroke ''aus'', Tick 200, Keystroke ''au'', Tick 200,
      Response 1 (Results [result_austin])]) =
     [\<lparr> name = Some ''Austin, Travis County, Texas, United States'', lat = 30.27,
        lon = -97.74, shortName = code_units ''Austin, Texas'' \<rparr>]"
proof -
  have m: "map_suggestions parseFloat_sample [result_austin] =
     Inr [\<lparr> name = Some ''Austin, Travis County, Texas, United States'', lat = 30.27,
        lon = -97.74, shortName = code_units ''Austin, Texas'' \<rparr>]"
    by (simp add: result_eval)
  have l: "3 \<le> length ''aus''" "length ''au'' < 3" "(200::nat) < 400" "(400::nat) \<le> 200 + 200"
    by simp_all
  from short_query_leaves_timer [OF timer_inv_init l m]
  show ?thesis using l timer_inv_init by (simp add: init_field_def)
qed

subsection \<open>C7: the short name\<close>

lemma toUpperCase_char_not_Nil: "toUpperCase_char c \<noteq> []"
  by (simp add: toUpperCase_char_def Let_def)

lemma toUpperCase_eq_Nil: "toUpperCase s = [] \<longleftrightarrow> s = []"
  by (cases s) (simp_all add: toUpperCase_def toUpperCase_char_not_Nil)

text \<open>Upper-casing on ASCII and on the Latin-1 letters, the sharp s and the micro sign.\<close>

lemma toUpperCase_examples:
  "toUpperCase ''us'' = code_units ''US'' \<and>
   toUpperCase ''a1-Z'' = code_units ''A1-Z'' \<and>
   toUpperCase [CHR 0xE9, CHR 0xDF, CHR 0xFF, CHR 0xB5, CHR 0xF7] =
     [0xC9, 0x53, 0x53, 0x178, 0x39C, 0xF7]"
  by (simp add: toUpperCase_def toUpperCase_char_def code_units_def)

lemma or_else_chain:
  "or_else (city a) (or_else (town a) (or_else (village a) (or_else (hamlet a)
     (or_else (county a) [])))) = (case city_field a of None \<Rightarrow> [] | Some c \<Rightarrow> c)"
  by (auto simp: city_field_def present_def or_else_def split: option.splits)

lemma city_field_Some: "city_field a = Some c \<Longrightarrow> c \<noteq> []"
  by (auto simp: city_field_def present_def split: option.splits if_splits)

lemma split_not_Nil: "split c s \<noteq> []"
  by (induction s) (auto split: list.splits)

lemma split_no_separator: "t \<in> set (split c s) \<Longrightarrow> c \<notin> set t"
  by (induction s arbitrary: t) (auto split: list.splits if_splits)

lemma join_split: "join [c] (split c s) = s"
proof (induction s)
  case Nil
  then show ?case by simp
next
  case (Cons x xs)
  obtain t ts where ts: "split c xs = t # ts"
    using split_not_Nil[of c xs] by (cases "split c xs") auto
  with Cons show ?case by (cases ts) auto
qed

text \<open>
  C7. \<open>buildShortName\<close> is a function of the result record alone. With the city field
  being the first present of city, town, village, hamlet and county (present: it exists
  and is not empty): if the city field and the state are present the result is
  \<open>city, state\<close>; if the city field is present, the state is not and the country code is,
  the result is \<open>city, COUNTRY-CODE\<close> with the code in upper case; otherwise the result
  is the first two comma-separated tokens of the display name, trimmed and joined by a
  comma and a space.
\<close>

theorem buildShortName_cases:
  "(let a = (case r_address r of None \<Rightarrow> empty_address | Some a \<Rightarrow> a) in
     (\<forall>c st. city_field a = Some c \<and> state a = Some st \<and> st \<noteq> [] \<longrightarrow>
        buildShortName r = Inr (code_units (c @ '', '' @ st))) \<and>
     (\<forall>c cc. city_field a = Some c \<and> \<not> present (state a) \<and>
              country_code a = Some cc \<and> cc \<noteq> [] \<longrightarrow>
        buildShortName r = Inr (code_units (c @ '', '') @ toUpperCase cc)) \<and>
     (\<forall>dn. (city_field a = None \<or> (\<not> present (state a) \<and> \<not> present (country_code a))) \<and>
           r_display_name r = Some dn \<longrightarrow>
        buildShortName r =
          Inr (code_units (join '', '' (take 2 (map trim (split CHR '','' dn)))))))"
  unfolding Let_def buildShortName_def or_else_chain
  by (auto simp: present_def or_else_def toUpperCase_eq_Nil dest: city_field_Some split: option.splits)

theorem buildShortName_cases_witness:
  "buildShortName result_austin = Inr (code_units ''Austin, Texas'') \<and>
   buildShortName result_moab = Inr (code_units ''Moab, US'') \<and>
   buildShortName (result_moab\<lparr> r_address := Some (empty_address\<lparr> village := Some ''Zell'',
       state := Some [], country_code := Some [CHR 0xE9, CHR 0xDF, CHR 0xFF] \<rparr>) \<rparr>) =
     Inr (code_units ''Zell, '' @ [0xC9, 0x53, 0x53, 0x178]) \<and>
   buildShortName result_plain = Inr (code_units ''Big Bend National Park, Brewster County'')"
proof -
  let ?r = "result_moab\<lparr> r_address := Some (empty_address\<lparr> village := Some ''Zell'',
       state := Some [], country_code := Some [CHR 0xE9, CHR 0xDF, CHR 0xFF] \<rparr>) \<rparr>"
  from buildShortName_cases [of result_austin]
  have 1: "buildShortName result_austin = Inr (code_units (''Austin'' @ '', '' @ ''Texas''))"
    by (simp add: result_austin_def empty_address_def city_field_def present_def)
  from buildShortName_cases [of result_moab]
  have 2: "buildShortName result_moab = Inr (code_units (''Moab'' @ '', '') @ toUpperCase ''us'')"
    by (simp add: result_moab_def empty_address_def city_field_def present_def)
  from buildShortName_cases [of ?r]
  have 3: "buildShortName ?r =
      Inr (code_units (''Zell'' @ '', '') @ toUpperCase [CHR 0xE9, CHR 0xDF, CHR 0xFF])"
    by (simp add: result_moab_def empty_address_def city_field_def present_def)
  from buildShortName_cases [of result_plain]
  have 4: "buildShortName result_plain = Inr (code_units (join '', '' (take 2 (map trim
     (split CHR '','' ''Big Bend National Park , Brewster County, Texas'')))))"
    by (simp add: result_plain_def empty_address_def city_field_def present_def)
  from 1 2 3 4 show ?thesis
    by (simp add: toUpperCase_def toUpperCase_char_def code_units_def trim_def
        is_white_space_def)
qed

subsection \<open>C2: queries below the minimum length\<close>

text \<open>
  C2 (as amended). In the Nominatim variant a query shorter than three characters issues
  no network call, sets no timer and empties the suggestion list at once. The offline
  variant never accesses the network, and it empties the suggestion list at once for a
  query shorter than two characters.
\<close>

theorem short_query_no_search:
  "(length q < 3 \<longrightarrow>
      suggestions (geocodeCity q s) = [] \<and> calls (geocodeCity q s) = calls s \<and>
      inflight (geocodeCity q s) = inflight s \<and> timers (geocodeCity q s) = timers s) \<and>
   (length q < 2 \<longrightarrow> off_suggestions (geocodeCity_offline q t) = [])"
  by (simp add: geocodeCity_def geocodeCity_offline_def)

theorem short_query_no_search_witness:
  "length ''au'' < 3 \<and> length ''a'' < 2 \<and>
   suggestions (geocodeCity ''au'' (run parseFloat_sample init_field
     [Keystroke ''aus'', Tick 400, Response 1 (Results [result_austin])])) = [] \<and>
   calls (geocodeCity ''au'' (run parseFloat_sample init_field
     [Keystroke ''aus'', Tick 400, Response 1 (Results [result_austin])])) = [''aus''] \<and>
   off_suggestions (geocodeCity_offline ''a''
     \<lparr> off_suggestions = take 1 cityDatabase, off_searching = False \<rparr>) = []"
proof -
  let ?s = "run parseFloat_sample init_field
     [Keystroke ''aus'', Tick 400, Response 1 (Results [result_austin])]"
  have c: "calls ?s = [''aus'']" by (simp add: field_eval result_eval)
  from short_query_no_search [of "''au''" ?s]
    short_query_no_search [of "''a''" ?s
      "\<lparr> off_suggestions = take 1 cityDatabase, off_searching = False \<rparr>"]
  show ?thesis using c by simp
qed

text \<open>
  C2 as stated fails in the offline variant: the query \<open>TX\<close> has two characters and
  yields five suggestions.
\<close>

theorem offline_two_characters_counterexample:
  "length ''TX'' < 3 \<and>
   map ce_name (off_suggestions (geocodeCity_offline ''TX''
     \<lparr> off_suggestions = [], off_searching = False \<rparr>)) =
     [''Austin, TX'', ''Big Bend National Park, TX'', ''El Paso, TX'', ''Houston, TX'',
      ''Dallas, TX'']"
  by code_simp

subsection \<open>C3: the route line\<close>

text \<open>
  C3. When the supplied route geometry is not empty, \<open>getRoutePositions\<close> returns exactly
  that sequence with the two axes of every pair swapped, from \<open>(lon, lat)\<close> to
  \<open>(lat, lon)\<close>, in the same order; when the geometry is empty or absent it returns
  exactly the two points start and destination, in that order.
\<close>

theorem getRoutePositions_spec:
  "(supplied_geometry tp \<noteq> [] \<longrightarrow>
      getRoutePositions pf startLat startLon destLat destLon tp =
        map (\<lambda>(lon, lat). (lat, lon)) (supplied_geometry tp)) \<and>
   (supplied_geometry tp = [] \<longrightarrow>
      getRoutePositions pf startLat startLon destLat destLon tp =
        [(pf startLat, pf startLon), (pf destLat, pf destLon)])"
  by (auto simp: getRoutePositions_def supplied_geometry_def split: option.splits prod.splits)

theorem getRoutePositions_spec_witness:
  "supplied_geometry (Some plan_a) = [(-97.74, 30.27), (-104.99, 39.74)] \<and>
   getRoutePositions parseFloat_sample ''30.27'' ''-97.74'' ''39.74'' ''-104.99'' (Some plan_a) =
     [(30.27, -97.74), (39.74, -104.99)] \<and>
   supplied_geometry (Some plan_b) = [] \<and>
   getRoutePositions parseFloat_sample ''30.27'' ''-97.74'' ''39.74'' ''-104.99'' (Some plan_b) =
     [(30.27, -97.74), (39.74, -104.99)] \<and>
   getRoutePositions parseFloat_sample ''30.27'' ''-97.74'' ''39.74'' ''-104.99'' None =
     [(30.27, -97.74), (39.74, -104.99)]"
proof -
  have a: "supplied_geometry (Some plan_a) = [(-97.74, 30.27), (-104.99, 39.74)]"
    and b: "supplied_geometry (Some plan_b) = []" and n: "supplied_geometry None = []"
    by (simp_all add: supplied_geometry_def plan_a_def plan_b_def)
  from getRoutePositions_spec [of "Some plan_a" parseFloat_sample "''30.27''" "''-97.74''"
      "''39.74''" "''-104.99''"]
    getRoutePositions_spec [of "Some plan_b" parseFloat_sample "''30.27''" "''-97.74''"
      "''39.74''" "''-104.99''"]
    getRoutePositions_spec [of None parseFloat_sample "''30.27''" "''-97.74''"
      "''39.74''" "''-104.99''"]
  show ?thesis
    by (simp add: a b n parseFloat_sample_def)
qed

subsection \<open>C9: the points the map is fitted to\<close>





subsection \<open>C5: marker icons and colours\<close>

text \<open>
  The three tables: the keys they list, a missing key, and every other key that is not
  the name of a member inherited from \<open>Object.prototype\<close>.
\<close>

lemma getCampsiteIcon_table:
  "getCampsiteIcon (Some ''dispersed'') = Value (createIcon ''orange'') \<and>
   getCampsiteIcon (Some ''campground'') = Value (createIcon ''blue'') \<and>
   getCampsiteIcon (Some ''rv_park'') = Value (createIcon ''violet'') \<and>
   getCampsiteIcon (Some ''start'') = Value (createIcon ''green'') \<and>
   getCampsiteIcon (Some ''end'') = Value (createIcon ''red'') \<and>
   getCampsiteIcon (Some ''default'') = Value (createIcon ''grey'') \<and>
   getCampsiteIcon None = Value (createIcon ''grey'')"
  by (simp add: getCampsiteIcon_def or_default_def get_property_def property_key_def icons_def
      object_prototype_names_def)

lemma getCampsiteIcon_other:
  assumes "t \<notin> {''start'', ''end'', ''dispersed'', ''campground'', ''rv_park'', ''default''}"
    and "t \<notin> set object_prototype_names"
  shows "getCampsiteIcon (Some t) = Value (createIcon ''grey'')"
proof -
  from assms(1) have "map_of icons t = None" by (simp add: icons_def)
  with assms(2) show ?thesis
    by (simp add: getCampsiteIcon_def or_default_def get_property_def property_key_def)
qed

lemma getCellServiceColor_table:
  "getCellServiceColor (Some ''excellent'') = Value ''#22c55e'' \<and>
   getCellServiceColor (Some ''good'') = Value ''#84cc16'' \<and>
   getCellServiceColor (Some ''weak'') = Value ''#eab308'' \<and>
   getCellServiceColor (Some ''none'') = Value ''#ef4444'' \<and>
   getCellServiceColor None = Value ''#6b7280''"
  by (simp add: getCellServiceColor_def or_default_def get_property_def property_key_def
      cell_service_colors_def object_prototype_names_def)

lemma getCellServiceColor_other:
  assumes "k \<notin> {''excellent'', ''good'', ''weak'', ''none''}"
    and "k \<notin> set object_prototype_names"
  shows "getCellServiceColor (Some k) = Value ''#6b7280''"
proof -
  from assms(1) have "map_of cell_service_colors k = None" by (simp add: cell_service_colors_def)
  with assms(2) show ?thesis
    by (simp add: getCellServiceColor_def or_default_def get_property_def property_key_def)
qed

lemma getDifficultyColor_table:
  "getDifficultyColor (Some ''easy'') = Value ''#22c55e'' \<and>
   getDifficultyColor (Some ''moderate'') = Value ''#eab308'' \<and>
   getDifficultyColor (Some ''difficult'') = Value ''#ef4444'' \<and>
   getDifficultyColor None = Value ''#6b7280''"
  by (simp add: getDifficultyColor_def or_default_def get_property_def property_key_def
      difficulty_colors_def object_prototype_names_def)

lemma getDifficultyColor_other:
  assumes "k \<notin> {''easy'', ''moderate'', ''difficult''}"
    and "k \<notin> set object_prototype_names"
  shows "getDifficultyColor (Some k) = Value ''#6b7280''"
proof -
  from assms(1) have "map_of difficulty_colors k = None" by (simp add: difficulty_colors_def)
  with assms(2) show ?thesis
    by (simp add: getDifficultyColor_def or_default_def get_property_def property_key_def)
qed

text \<open>
  C5 says that any unrecognized site type resolves to the grey icon and any unrecognized
  cell-service or difficulty key to the colour \<open>#6b7280\<close>. The code does not do this for
  the keys \<open>constructor\<close>, \<open>toString\<close> and the other names of \<open>Object.prototype\<close>: the
  lookup finds the inherited member, which is truthy, and returns it instead of the
  default.
\<close>

theorem lookup_finds_inherited_member:
  "getCampsiteIcon (Some ''constructor'') = Prototype_member ''constructor'' \<and>
   getCellServiceColor (Some ''constructor'') = Prototype_member ''constructor'' \<and>
   getDifficultyColor (Some ''toString'') = Prototype_member ''toString''"
  by (simp add: getCampsiteIcon_def getCellServiceColor_def getDifficultyColor_def
      or_default_def get_property_def property_key_def icons_def cell_service_colors_def
      difficulty_colors_def object_prototype_names_def)

subsection \<open>C6: the selection and a new trip plan\<close>

text \<open>
  \<open>planTrip\<close> resets the selection when the request is started; storing the result when
  it arrives does not touch the selection.
\<close>

lemma planTrip_clears_selection: "selectedCampsite (planTrip s) = None"
  by (simp add: planTrip_def)

lemma planTrip_resume_keeps_selection:
  "selectedCampsite (planTrip_resume resp s) = selectedCampsite s"
  by (simp add: planTrip_resume_def split: plan_response.splits)

text \<open>
  C6 says that whenever a new trip-plan result is stored the selection is none, so that
  no selection of an earlier result coexists with a newer result. The code does not
  ensure this. Plan A is stored and its campsite is selected; the plan button is
  pressed, which resets the selection while plan A stays on the page; the campsite of
  plan A is selected again while the request is under way; then plan B arrives and is
  stored, and the selection still is the campsite of plan A, which plan B does not
  contain.
\<close>

theorem stale_selection_survives_new_plan:
  "selectedCampsite (app_run init_app
     [ClickPlan, PlanResponse (PlanOk plan_a), ClickSite site_a]) = Some site_a \<and>
   selectedCampsite (app_run init_app
     [ClickPlan, PlanResponse (PlanOk plan_a), ClickSite site_a, ClickPlan]) = None \<and>
   tripPlan (app_run init_app
     [ClickPlan, PlanResponse (PlanOk plan_a), ClickSite site_a, ClickPlan]) = Some plan_a \<and>
   tripPlan (app_run init_app
     [ClickPlan, PlanResponse (PlanOk plan_a), ClickSite site_a, ClickPlan,
      ClickSite site_a, PlanResponse (PlanOk plan_b)]) = Some plan_b \<and>
   selectedCampsite (app_run init_app
     [ClickPlan, PlanResponse (PlanOk plan_a), ClickSite site_a, ClickPlan,
      ClickSite site_a, PlanResponse (PlanOk plan_b)]) = Some site_a \<and>
   site_a \<notin> set (rendered_sites (Some plan_b))"
  by (simp add: app_run_def init_app_def planTrip_def planTrip_resume_def
      handleCampsiteSelect_def rendered_sites_def plan_a_def plan_b_def site_a_def site_b_def)

end
